theory Spec2Isabelle
  imports Complex_Main "HOL-Library.Sublist"
begin

section \<open>Python values\<close>

text \<open>
  The client stores whatever the remote reply carries, and Python does not check the
  annotation \<^verbatim>\<open>content: str\<close> of the dataclass. So message contents, parsed JSON bodies
  and the value \<^verbatim>\<open>chat\<close> returns are all values of one type of Python objects, the ones
  \<^verbatim>\<open>json.loads\<close> can produce. \<open>PyNone\<close> is Python's \<^verbatim>\<open>None\<close> (JSON \<^verbatim>\<open>null\<close>). A dict is an
  association list read with \<open>map_of\<close>. A finite float stands by its exact rational value.
  A \<open>char\<close> stands for the code point of the same number.
\<close>

datatype pyval =
    PyNone
  | PyBool bool
  | PyInt int
  | PyFloat rat
  | PyStr string
  | PyList "pyval list"
  | PyDict "(string \<times> pyval) list"

text \<open>
  The exception classes the client meets; all are subclasses of \<^verbatim>\<open>Exception\<close>.
  \<open>JSONDecodeError\<close> is \<^verbatim>\<open>json.JSONDecodeError\<close> with its subclasses, \<open>RequestException\<close> any
  other \<^verbatim>\<open>requests\<close> exception than the two named before it.
\<close>

datatype exn =
    Timeout
  | ConnectionError
  | RequestException string
  | JSONDecodeError
  | TypeError
  | KeyError
  | IndexError
  | AttributeError
  | OtherException string

text \<open>\<^verbatim>\<open>str.isspace\<close> on the code points below 256, and \<^verbatim>\<open>str.strip()\<close>.\<close>

definition py_isspace :: "char \<Rightarrow> bool" where
  "py_isspace ch = (of_char ch \<in> {9, 10, 11, 12, 13, 28, 29, 30, 31, 32, 133, 160 :: nat})"

definition strip :: "string \<Rightarrow> string" where
  "strip s = rev (dropWhile py_isspace (rev (dropWhile py_isspace s)))"

text \<open>\<^verbatim>\<open>s.rstrip('/')\<close>: the trailing run of one given character removed.\<close>

definition rstrip_char :: "char \<Rightarrow> string \<Rightarrow> string" where
  "rstrip_char ch s = rev (dropWhile (\<lambda>x. x = ch) (rev s))"

text \<open>
  The slice \<^verbatim>\<open>xs[start:]\<close>: a negative start counts from the end, and a start outside the
  list is clamped to the nearer end.
\<close>

definition py_slice_from :: "int \<Rightarrow> 'a list \<Rightarrow> 'a list" where
  "py_slice_from start xs =
     (let n = int (length xs);
          s = (if start < 0 then max (start + n) 0 else min start n)
      in drop (nat s) xs)"

section \<open>The conversation history\<close>

record ChatMessage =
  role :: string
  content :: pyval

definition to_dict :: "ChatMessage \<Rightarrow> pyval" where
  "to_dict msg = PyDict [(''role'', PyStr (role msg)), (''content'', content msg)]"

record DeepSeekClient =
  api_key :: string
  base_url :: string
  model :: string
  max_tokens :: int
  temperature :: rat
  timeout :: int
  headers :: "(string \<times> string) list"
  conversation_history :: "ChatMessage list"
  max_history :: int

definition init :: "string \<Rightarrow> string \<Rightarrow> string \<Rightarrow> int \<Rightarrow> rat \<Rightarrow> int \<Rightarrow> DeepSeekClient" where
  "init key url mdl mtok temp tmo =
     \<lparr>api_key = key,
      base_url = rstrip_char (CHR ''/'') url,
      model = mdl,
      max_tokens = mtok,
      temperature = temp,
      timeout = tmo,
      headers = [(''Authorization'', ''Bearer '' @ key),
                 (''Content-Type'', ''application/json''),
                 (''User-Agent'', ''DeepSeek-CLI-Chat/1.0'')],
      conversation_history = [],
      max_history = 10\<rparr>"

text \<open>The two list comprehensions that every history operation is built from.\<close>

definition system_messages :: "ChatMessage list \<Rightarrow> ChatMessage list" where
  "system_messages h = filter (\<lambda>msg. role msg = ''system'') h"

definition other_messages :: "ChatMessage list \<Rightarrow> ChatMessage list" where
  "other_messages h = filter (\<lambda>msg. role msg \<noteq> ''system'') h"

definition set_system_prompt :: "DeepSeekClient \<Rightarrow> string \<Rightarrow> DeepSeekClient" where
  "set_system_prompt c system_prompt =
     (let h = other_messages (conversation_history c)
      in if strip system_prompt \<noteq> []
         then c\<lparr>conversation_history :=
                  \<lparr>role = ''system'', content = PyStr (strip system_prompt)\<rparr> # h\<rparr>
         else c\<lparr>conversation_history := h\<rparr>)"

definition trim_history :: "DeepSeekClient \<Rightarrow> DeepSeekClient" where
  "trim_history c =
     (let sys = system_messages (conversation_history c);
          other = other_messages (conversation_history c);
          other' = (if int (length other) > max_history c
                    then py_slice_from (- max_history c) other
                    else other)
      in c\<lparr>conversation_history := sys @ other'\<rparr>)"

definition add_user_message :: "DeepSeekClient \<Rightarrow> pyval \<Rightarrow> DeepSeekClient" where
  "add_user_message c cont =
     trim_history
       (c\<lparr>conversation_history :=
            conversation_history c @ [\<lparr>role = ''user'', content = cont\<rparr>]\<rparr>)"

definition add_assistant_message :: "DeepSeekClient \<Rightarrow> pyval \<Rightarrow> DeepSeekClient" where
  "add_assistant_message c cont =
     trim_history
       (c\<lparr>conversation_history :=
            conversation_history c @ [\<lparr>role = ''assistant'', content = cont\<rparr>]\<rparr>)"

definition clear_history :: "DeepSeekClient \<Rightarrow> DeepSeekClient" where
  "clear_history c =
     c\<lparr>conversation_history := system_messages (conversation_history c)\<rparr>"

text \<open>A sequence of appends, run from left to right.\<close>

datatype append_call = AppendUser pyval | AppendAssistant pyval

fun apply_call :: "DeepSeekClient \<Rightarrow> append_call \<Rightarrow> DeepSeekClient" where
  "apply_call c (AppendUser v) = add_user_message c v"
| "apply_call c (AppendAssistant v) = add_assistant_message c v"

definition run_calls :: "DeepSeekClient \<Rightarrow> append_call list \<Rightarrow> DeepSeekClient" where
  "run_calls c calls = foldl apply_call c calls"

section \<open>Operations on Python values\<close>

text \<open>
  Each operation returns \<open>Inl\<close> of the exception it raises or \<open>Inr\<close> of its value. The keys
  and indices are the ones the client uses: a \<^verbatim>\<open>str\<close> key, and the index \<^verbatim>\<open>0\<close>.
\<close>

definition then_do :: "exn + 'a \<Rightarrow> ('a \<Rightarrow> exn + 'b) \<Rightarrow> exn + 'b" where
  "then_do r f = (case r of Inl e \<Rightarrow> Inl e | Inr v \<Rightarrow> f v)"

fun is_substring :: "string \<Rightarrow> string \<Rightarrow> bool" where
  "is_substring sub [] = (sub = [])"
| "is_substring sub (x # xs) =
     (take (length sub) (x # xs) = sub \<or> is_substring sub xs)"

text \<open>\<^verbatim>\<open>key in obj\<close>\<close>

fun py_contains :: "string \<Rightarrow> pyval \<Rightarrow> exn + bool" where
  "py_contains key (PyDict kvs) = Inr (key \<in> set (map fst kvs))"
| "py_contains key (PyList xs) = Inr (PyStr key \<in> set xs)"
| "py_contains key (PyStr s) = Inr (is_substring key s)"
| "py_contains key _ = Inl TypeError"

text \<open>\<^verbatim>\<open>obj[key]\<close> for a \<^verbatim>\<open>str\<close> key\<close>

fun py_getitem :: "pyval \<Rightarrow> string \<Rightarrow> exn + pyval" where
  "py_getitem (PyDict kvs) key =
     (case map_of kvs key of None \<Rightarrow> Inl KeyError | Some v \<Rightarrow> Inr v)"
| "py_getitem _ key = Inl TypeError"

text \<open>\<^verbatim>\<open>obj[0]\<close>; the keys of a parsed JSON object are strings, so \<^verbatim>\<open>0\<close> is never one.\<close>

fun py_getitem0 :: "pyval \<Rightarrow> exn + pyval" where
  "py_getitem0 (PyList []) = Inl IndexError"
| "py_getitem0 (PyList (x # xs)) = Inr x"
| "py_getitem0 (PyStr []) = Inl IndexError"
| "py_getitem0 (PyStr (ch # s)) = Inr (PyStr [ch])"
| "py_getitem0 (PyDict kvs) = Inl KeyError"
| "py_getitem0 _ = Inl TypeError"

text \<open>\<^verbatim>\<open>len(obj)\<close>\<close>

fun py_len :: "pyval \<Rightarrow> exn + nat" where
  "py_len (PyList xs) = Inr (length xs)"
| "py_len (PyStr s) = Inr (length s)"
| "py_len (PyDict kvs) = Inr (length (remdups (map fst kvs)))"
| "py_len _ = Inl TypeError"

text \<open>\<^verbatim>\<open>obj.get(key, default)\<close>: only a dict has the method.\<close>

fun py_get :: "pyval \<Rightarrow> string \<Rightarrow> pyval \<Rightarrow> exn + pyval" where
  "py_get (PyDict kvs) key dflt =
     (case map_of kvs key of None \<Rightarrow> Inr dflt | Some v \<Rightarrow> Inr v)"
| "py_get _ key dflt = Inl AttributeError"

text \<open>The truth value of an object, as \<^verbatim>\<open>if obj:\<close> reads it.\<close>

fun py_truthy :: "pyval \<Rightarrow> bool" where
  "py_truthy PyNone = False"
| "py_truthy (PyBool b) = b"
| "py_truthy (PyInt i) = (i \<noteq> 0)"
| "py_truthy (PyFloat r) = (r \<noteq> 0)"
| "py_truthy (PyStr s) = (s \<noteq> [])"
| "py_truthy (PyList xs) = (xs \<noteq> [])"
| "py_truthy (PyDict kvs) = (kvs \<noteq> [])"

section \<open>The remote call\<close>

text \<open>
  What \<^verbatim>\<open>requests.post\<close> is called with, and what comes back: the call raises, or returns a
  response (\<open>resp_text\<close> is its \<^verbatim>\<open>text\<close>). \<open>json\<close> is what \<^verbatim>\<open>response.json()\<close> does on that
  response: it raises on a body that does not parse (with the exception class of the
  installed library), or returns the parsed body. The remote side is a parameter \<open>post\<close>
  of every operation that calls it. Printing to the console is not part of the state and
  is left out, except where the code that prints can raise.
\<close>

record post_args =
  url :: string
  post_headers :: "(string \<times> string) list"
  json_body :: pyval
  post_timeout :: int

record response =
  status_code :: int
  resp_text :: string
  json :: "exn + pyval"

type_synonym remote = "post_args \<Rightarrow> exn + response"

text \<open>
  The default of \<^verbatim>\<open>.get('message', ...)\<close> is a Chinese text meaning ``unknown error''; it is
  only ever printed.
\<close>

definition unknown_error :: pyval where
  "unknown_error = PyStr ''unknown error''"

text \<open>
  \<^verbatim>\<open>_handle_api_error\<close> reads the error body and prints a line chosen by the status code. It
  catches a \<^verbatim>\<open>json.JSONDecodeError\<close> itself; anything else it raises goes to the caller.
\<close>

definition handle_api_error :: "response \<Rightarrow> exn + unit" where
  "handle_api_error resp =
     (case json resp of
        Inl e \<Rightarrow> (if e = JSONDecodeError then Inr () else Inl e)
      | Inr error_data \<Rightarrow>
          then_do (py_get error_data ''error'' (PyDict [])) (\<lambda>err.
          then_do (py_get err ''message'' unknown_error) (\<lambda>error_message.
          then_do (py_get error_data ''error'' (PyDict [])) (\<lambda>err'.
          then_do (py_get err' ''type'' (PyStr ''unknown'')) (\<lambda>error_type.
          Inr ())))))"

text \<open>
  \<^verbatim>\<open>_print_response_info\<close>: for each of the three counters, \<^verbatim>\<open>if key in usage:\<close> and then
  \<^verbatim>\<open>usage[key]\<close> in the printed line.
\<close>

definition usage_part :: "pyval \<Rightarrow> string \<Rightarrow> exn + unit" where
  "usage_part usage key =
     then_do (py_contains key usage) (\<lambda>present.
       if present then then_do (py_getitem usage key) (\<lambda>v. Inr ()) else Inr ())"

definition print_response_info :: "pyval \<Rightarrow> exn + unit" where
  "print_response_info usage =
     (if py_truthy usage
      then then_do (usage_part usage ''prompt_tokens'') (\<lambda>_.
           then_do (usage_part usage ''completion_tokens'') (\<lambda>_.
           usage_part usage ''total_tokens''))
      else Inr ())"

text \<open>
  The request \<^verbatim>\<open>chat\<close> sends, built from the whole stored history:
  \<^verbatim>\<open>[msg.to_dict() for msg in self.conversation_history]\<close>.
\<close>

definition request_messages :: "DeepSeekClient \<Rightarrow> pyval list" where
  "request_messages c = map to_dict (conversation_history c)"

definition chat_request :: "DeepSeekClient \<Rightarrow> post_args" where
  "chat_request c =
     (let messages = request_messages c;
          request_data = PyDict [(''model'', PyStr (model c)),
                                 (''messages'', PyList messages),
                                 (''max_tokens'', PyInt (max_tokens c)),
                                 (''temperature'', PyFloat (temperature c)),
                                 (''stream'', PyBool False)]
      in \<lparr>url = base_url c @ ''/chat/completions'',
          post_headers = headers c,
          json_body = request_data,
          post_timeout = timeout c\<rparr>)"

text \<open>
  \<^verbatim>\<open>'choices' in response_data and len(response_data['choices']) > 0\<close>, with the
  short-circuit of \<^verbatim>\<open>and\<close>.
\<close>

definition has_choices :: "pyval \<Rightarrow> exn + bool" where
  "has_choices response_data =
     then_do (py_contains ''choices'' response_data) (\<lambda>present.
       if present
       then then_do (py_getitem response_data ''choices'') (\<lambda>choices.
            then_do (py_len choices) (\<lambda>n. Inr (n > 0)))
       else Inr False)"

text \<open>\<^verbatim>\<open>response_data['choices'][0]['message']['content']\<close>\<close>

definition first_choice_content :: "pyval \<Rightarrow> exn + pyval" where
  "first_choice_content response_data =
     then_do (py_getitem response_data ''choices'') (\<lambda>choices.
     then_do (py_getitem0 choices) (\<lambda>choice.
     then_do (py_getitem choice ''message'') (\<lambda>message.
     py_getitem message ''content'')))"

text \<open>
  The body of the \<^verbatim>\<open>try\<close> block of \<^verbatim>\<open>chat\<close>. The client it returns is the one the block has
  built when it returns or raises: what was appended before a raise stays appended.
\<close>

definition chat_try :: "DeepSeekClient \<Rightarrow> string \<Rightarrow> remote \<Rightarrow> DeepSeekClient \<times> (exn + pyval)" where
  "chat_try c user_input post =
     (let c1 = add_user_message c (PyStr user_input)
      in case post (chat_request c1) of
           Inl e \<Rightarrow> (c1, Inl e)
         | Inr resp \<Rightarrow>
             if status_code resp = 200
             then (case json resp of
                     Inl e \<Rightarrow> (c1, Inl e)
                   | Inr response_data \<Rightarrow>
                       (case has_choices response_data of
                          Inl e \<Rightarrow> (c1, Inl e)
                        | Inr False \<Rightarrow> (c1, Inr PyNone)
                        | Inr True \<Rightarrow>
                            (case first_choice_content response_data of
                               Inl e \<Rightarrow> (c1, Inl e)
                             | Inr assistant_reply \<Rightarrow>
                                 (let c2 = add_assistant_message c1 assistant_reply
                                  in (c2,
                                      then_do (py_get response_data ''usage'' (PyDict [])) (\<lambda>usage.
                                      then_do (print_response_info usage) (\<lambda>_.
                                      Inr assistant_reply)))))))
             else (c1, then_do (handle_api_error resp) (\<lambda>_. Inr PyNone)))"

text \<open>
  \<^verbatim>\<open>chat\<close>: the five handlers, in the order of the source. Each prints a line of its own and
  returns \<^verbatim>\<open>None\<close>; the last one catches every exception the others let through.
\<close>

fun chat_except :: "exn \<Rightarrow> pyval" where
  "chat_except Timeout = PyNone"
| "chat_except ConnectionError = PyNone"
| "chat_except (RequestException msg) = PyNone"
| "chat_except JSONDecodeError = PyNone"
| "chat_except e = PyNone"

definition chat :: "DeepSeekClient \<Rightarrow> string \<Rightarrow> remote \<Rightarrow> DeepSeekClient \<times> pyval" where
  "chat c user_input post =
     (case chat_try c user_input post of
        (c', Inr reply) \<Rightarrow> (c', reply)
      | (c', Inl e) \<Rightarrow> (c', chat_except e))"

text \<open>The probe request of \<^verbatim>\<open>test_connection\<close>.\<close>

definition test_request :: "DeepSeekClient \<Rightarrow> post_args" where
  "test_request c =
     (let test_messages = PyList [PyDict [(''role'', PyStr ''user''),
                                          (''content'', PyStr ''Hello'')]];
          request_data = PyDict [(''model'', PyStr (model c)),
                                 (''messages'', test_messages),
                                 (''max_tokens'', PyInt 10),
                                 (''temperature'', PyFloat (1 / 10))]
      in \<lparr>url = base_url c @ ''/chat/completions'',
          post_headers = headers c,
          json_body = request_data,
          post_timeout = 10\<rparr>)"

definition test_connection_try :: "DeepSeekClient \<Rightarrow> remote \<Rightarrow> DeepSeekClient \<times> (exn + bool)" where
  "test_connection_try c post =
     (case post (test_request c) of
        Inl e \<Rightarrow> (c, Inl e)
      | Inr resp \<Rightarrow>
          if status_code resp = 200
          then (c, Inr True)
          else (c, then_do (handle_api_error resp) (\<lambda>_. Inr False)))"

definition test_connection :: "DeepSeekClient \<Rightarrow> remote \<Rightarrow> DeepSeekClient \<times> bool" where
  "test_connection c post =
     (case test_connection_try c post of
        (c', Inr ok) \<Rightarrow> (c', ok)
      | (c', Inl e) \<Rightarrow> (c', False))"

section \<open>Vocabulary of the properties\<close>

text \<open>The message an append call adds.\<close>

fun message_of :: "append_call \<Rightarrow> ChatMessage" where
  "message_of (AppendUser v) = \<lparr>role = ''user'', content = v\<rparr>"
| "message_of (AppendAssistant v) = \<lparr>role = ''assistant'', content = v\<rparr>"

text \<open>
  The failures of a call that the properties speak of: the transport raises (a timeout, a
  connection failure, any other exception); or the status is not 200; or the status is 200
  and the body does not parse, or the parsed body has no \<^verbatim>\<open>choices\<close> entry (an object without
  the key, or no object at all), or its \<^verbatim>\<open>choices\<close> is the empty array.
\<close>

fun choices_missing_or_empty :: "pyval \<Rightarrow> bool" where
  "choices_missing_or_empty (PyDict kvs) =
     (case map_of kvs ''choices'' of None \<Rightarrow> True | Some v \<Rightarrow> v = PyList [])"
| "choices_missing_or_empty _ = True"

definition failure_outcome :: "exn + response \<Rightarrow> bool" where
  "failure_outcome out =
     (case out of
        Inl e \<Rightarrow> True
      | Inr resp \<Rightarrow>
          status_code resp \<noteq> 200 \<or>
          (case json resp of Inl e \<Rightarrow> True | Inr d \<Rightarrow> choices_missing_or_empty d))"

text \<open>
  The \<^verbatim>\<open>usage\<close> entry of a success body as the wire format has it: absent, \<^verbatim>\<open>null\<close>, or an
  object.
\<close>

fun usage_absent_or_object :: "pyval option \<Rightarrow> bool" where
  "usage_absent_or_object None = True"
| "usage_absent_or_object (Some PyNone) = True"
| "usage_absent_or_object (Some (PyDict kvs)) = True"
| "usage_absent_or_object (Some v) = False"

section \<open>Concrete clients, call sequences and remote sides\<close>

definition demo_client :: DeepSeekClient where
  "demo_client =
     (init ''sk-demo'' ''https://api.deepseek.com/v1/'' ''deepseek-chat'' 2000 (7 / 10) 30)
       \<lparr>max_history := 2\<rparr>"

definition demo_history :: "ChatMessage list" where
  "demo_history =
     [\<lparr>role = ''user'', content = PyStr ''a''\<rparr>,
      \<lparr>role = ''system'', content = PyStr ''Be brief.''\<rparr>,
      \<lparr>role = ''assistant'', content = PyStr ''b''\<rparr>,
      \<lparr>role = ''user'', content = PyStr ''c''\<rparr>]"

definition demo_calls :: "append_call list" where
  "demo_calls = [AppendUser (PyStr ''a''), AppendAssistant (PyStr ''b''),
                 AppendUser (PyStr ''c''), AppendAssistant (PyStr ''d''),
                 AppendUser (PyStr ''e'')]"

definition remote_timeout :: remote where
  "remote_timeout = (\<lambda>args. Inl Timeout)"

definition remote_connection_error :: remote where
  "remote_connection_error = (\<lambda>args. Inl ConnectionError)"

definition remote_401 :: remote where
  \<open>remote_401 = (\<lambda>args. Inr
     \<lparr>status_code = 401,
      resp_text = ''{"error":{"message":"invalid key","type":"auth"}}'',
      json = Inr (PyDict [(''error'', PyDict [(''message'', PyStr ''invalid key''),
                                              (''type'', PyStr ''auth'')])])\<rparr>)\<close>

definition remote_reply :: "pyval \<Rightarrow> remote" where
  "remote_reply body = (\<lambda>args. Inr \<lparr>status_code = 200, resp_text = [], json = Inr body\<rparr>)"

definition hello_choices :: pyval where
  "hello_choices =
     PyList [PyDict [(''message'', PyDict [(''role'', PyStr ''assistant''),
                                          (''content'', PyStr '' Hello! '')])]]"

lemmas history_defs =
  add_user_message_def add_assistant_message_def trim_history_def set_system_prompt_def
  clear_history_def other_messages_def system_messages_def py_slice_from_def run_calls_def
  strip_def py_isspace_def

lemmas demo_defs =
  demo_client_def demo_history_def demo_calls_def init_def rstrip_char_def
  remote_timeout_def remote_connection_error_def remote_401_def remote_reply_def
  hello_choices_def

lemmas chat_defs =
  chat_def chat_try_def chat_request_def request_messages_def to_dict_def has_choices_def
  first_choice_content_def then_do_def handle_api_error_def print_response_info_def
  usage_part_def unknown_error_def failure_outcome_def test_connection_def
  test_connection_try_def test_request_def

section \<open>Retention: lemmas\<close>

lemma other_of_system [simp]: "other_messages (system_messages h) = []"
  by (induction h) (simp_all add: other_messages_def system_messages_def)

lemma system_of_other [simp]: "system_messages (other_messages h) = []"
  by (induction h) (simp_all add: other_messages_def system_messages_def)

lemma other_of_other [simp]: "other_messages (other_messages h) = other_messages h"
  by (simp add: other_messages_def)

lemma system_of_system [simp]: "system_messages (system_messages h) = system_messages h"
  by (simp add: system_messages_def)

lemma other_append [simp]: "other_messages (xs @ ys) = other_messages xs @ other_messages ys"
  by (simp add: other_messages_def)

lemma system_append [simp]: "system_messages (xs @ ys) = system_messages xs @ system_messages ys"
  by (simp add: system_messages_def)

lemma other_drop:
  "other_messages (drop n (other_messages h)) = drop n (other_messages h)"
proof -
  have "\<forall>m \<in> set (drop n (other_messages h)). role m \<noteq> ''system''"
    by (auto simp: other_messages_def dest: in_set_dropD)
  then show ?thesis
    unfolding other_messages_def by (simp only: filter_id_conv)
qed

lemma system_drop [simp]: "system_messages (drop n (other_messages h)) = []"
proof -
  have "\<forall>m \<in> set (drop n (other_messages h)). role m \<noteq> ''system''"
    by (auto simp: other_messages_def dest: in_set_dropD)
  then show ?thesis
    unfolding system_messages_def by (simp add: filter_empty_conv)
qed

lemma slice_last_k:
  assumes "0 < k" and "k < int (length xs)"
  shows "py_slice_from (- k) xs = drop (length xs - nat k) xs"
proof -
  have "nat (- k + int (length xs)) = length xs - nat k"
    using assms by linarith
  with assms show ?thesis
    by (simp add: py_slice_from_def Let_def max_def)
qed

lemma slice_zero: "py_slice_from 0 xs = xs"
  by (simp add: py_slice_from_def)

lemma trim_history_positive:
  assumes "0 < max_history c"
  shows "conversation_history (trim_history c) =
           system_messages (conversation_history c) @
           drop (length (other_messages (conversation_history c)) - nat (max_history c))
                (other_messages (conversation_history c))"
proof (cases "int (length (other_messages (conversation_history c))) > max_history c")
  case True
  with assms show ?thesis
    by (simp add: trim_history_def Let_def slice_last_k)
next
  case False
  then have "length (other_messages (conversation_history c)) - nat (max_history c) = 0"
    by linarith
  with False show ?thesis
    by (simp add: trim_history_def Let_def)
qed

lemma trim_history_max_history [simp]: "max_history (trim_history c) = max_history c"
  by (simp add: trim_history_def Let_def)

lemma trim_history_bound:
  assumes "0 < max_history c"
  shows "int (length (other_messages (conversation_history (trim_history c)))) \<le> max_history c"
proof -
  have "int (length (drop (length (other_messages (conversation_history c)) - nat (max_history c))
          (other_messages (conversation_history c)))) \<le> max_history c"
    using assms by simp
  then show ?thesis
    by (simp add: trim_history_positive [OF assms] other_drop)
qed

lemma apply_call_max_history [simp]: "max_history (apply_call c call) = max_history c"
  by (cases call) (simp_all add: add_user_message_def add_assistant_message_def)

lemma run_calls_max_history [simp]: "max_history (run_calls c calls) = max_history c"
  unfolding run_calls_def by (induction calls arbitrary: c) simp_all

lemma apply_call_bound:
  assumes "0 < max_history c"
  shows "int (length (other_messages (conversation_history (apply_call c call)))) \<le> max_history c"
proof (cases call)
  case (AppendUser v)
  let ?c = "c\<lparr>conversation_history := conversation_history c @ [\<lparr>role = ''user'', content = v\<rparr>]\<rparr>"
  have "0 < max_history ?c" using assms by simp
  from trim_history_bound [OF this] AppendUser show ?thesis
    by (simp add: add_user_message_def)
next
  case (AppendAssistant v)
  let ?c = "c\<lparr>conversation_history := conversation_history c @ [\<lparr>role = ''assistant'', content = v\<rparr>]\<rparr>"
  have "0 < max_history ?c" using assms by simp
  from trim_history_bound [OF this] AppendAssistant show ?thesis
    by (simp add: add_assistant_message_def)
qed

lemma run_calls_snoc: "run_calls c (calls @ [call]) = apply_call (run_calls c calls) call"
  by (simp add: run_calls_def)

lemma run_calls_bound:
  assumes "0 < max_history c" and "calls \<noteq> []"
  shows "int (length (other_messages (conversation_history (run_calls c calls)))) \<le> max_history c"
proof -
  from assms(2) obtain cs call where calls: "calls = cs @ [call]"
    by (metis rev_exhaust)
  have "0 < max_history (run_calls c cs)" using assms(1) by simp
  from apply_call_bound [OF this, of call] show ?thesis
    by (simp add: calls run_calls_snoc)
qed

lemma apply_call_eq:
  "apply_call c call = trim_history (c\<lparr>conversation_history := conversation_history c @ [message_of call]\<rparr>)"
  by (cases call) (simp_all add: add_user_message_def add_assistant_message_def)

lemma other_message_of [simp]: "other_messages [message_of call] = [message_of call]"
  by (cases call) (simp_all add: other_messages_def)

lemma system_message_of [simp]: "system_messages [message_of call] = []"
  by (cases call) (simp_all add: system_messages_def)

lemma trim_history_other:
  assumes "0 < max_history c"
  shows "other_messages (conversation_history (trim_history c)) =
           drop (length (other_messages (conversation_history c)) - nat (max_history c))
                (other_messages (conversation_history c))"
  by (simp add: trim_history_positive [OF assms] other_drop)

lemma trim_history_system:
  "system_messages (conversation_history (trim_history c)) =
     system_messages (conversation_history c)"
proof -
  have "system_messages (py_slice_from s (other_messages h)) = []" for s h
    by (simp add: py_slice_from_def Let_def)
  then show ?thesis
    by (simp add: trim_history_def Let_def)
qed

lemma apply_call_other:
  assumes "0 < max_history c"
  shows "other_messages (conversation_history (apply_call c call)) =
           drop (Suc (length (other_messages (conversation_history c))) - nat (max_history c))
                (other_messages (conversation_history c) @ [message_of call])"
proof -
  let ?c = "c\<lparr>conversation_history := conversation_history c @ [message_of call]\<rparr>"
  have "0 < max_history ?c" using assms by simp
  from trim_history_other [OF this] show ?thesis
    by (simp add: apply_call_eq)
qed

lemma drop_last_window:
  assumes "0 < k"
  shows "drop (Suc (length (drop (length xs - k) xs)) - k) (drop (length xs - k) xs @ [y]) =
         drop (Suc (length xs) - k) (xs @ [y])"
proof (cases "length xs \<le> k")
  case True
  then show ?thesis by simp
next
  case False
  then have len: "length (drop (length xs - k) xs) = k" by simp
  have "Suc k - k = Suc 0" by simp
  moreover have "Suc (length xs) - k = Suc (length xs - k)" using False by simp
  moreover have "length xs - k < length xs" using False assms by simp
  ultimately show ?thesis
    by (simp add: len Suc_diff_le)
qed

lemma run_calls_other:
  assumes "0 < max_history c" and "calls \<noteq> []"
  shows "other_messages (conversation_history (run_calls c calls)) =
           drop (length (other_messages (conversation_history c)) + length calls - nat (max_history c))
                (other_messages (conversation_history c) @ map message_of calls)"
  using assms(2)
proof (induction calls rule: rev_nonempty_induct)
  case (single call)
  from apply_call_other [OF assms(1), of call] show ?case
    by (simp add: run_calls_def)
next
  case (snoc call cs)
  let ?X = "other_messages (conversation_history c) @ map message_of cs"
  let ?k = "nat (max_history c)"
  have k: "0 < ?k" using assms(1) by simp
  have pos: "0 < max_history (run_calls c cs)" using assms(1) by simp
  have "other_messages (conversation_history (run_calls c (cs @ [call]))) =
          drop (Suc (length (drop (length ?X - ?k) ?X)) - ?k)
               (drop (length ?X - ?k) ?X @ [message_of call])"
    using apply_call_other [OF pos, of call] snoc.IH
    by (simp add: run_calls_snoc)
  also have "\<dots> = drop (Suc (length ?X) - ?k) (?X @ [message_of call])"
    by (rule drop_last_window [OF k])
  finally show ?case by simp
qed

lemma trim_history_zero:
  assumes "max_history c = 0"
  shows "conversation_history (trim_history c) =
           system_messages (conversation_history c) @ other_messages (conversation_history c)"
  using assms by (simp add: trim_history_def Let_def slice_zero)

lemma apply_call_zero:
  assumes "max_history c = 0"
  shows "other_messages (conversation_history (apply_call c call)) =
           other_messages (conversation_history c) @ [message_of call]"
proof -
  let ?c = "c\<lparr>conversation_history := conversation_history c @ [message_of call]\<rparr>"
  have "max_history ?c = 0" using assms by simp
  from trim_history_zero [OF this] show ?thesis
    by (simp add: apply_call_eq)
qed

lemma run_calls_zero:
  assumes "max_history c = 0"
  shows "other_messages (conversation_history (run_calls c calls)) =
           other_messages (conversation_history c) @ map message_of calls"
proof (induction calls rule: rev_induct)
  case Nil
  show ?case by (simp add: run_calls_def)
next
  case (snoc call cs)
  have "max_history (run_calls c cs) = 0" using assms by simp
  from apply_call_zero [OF this, of call] snoc.IH show ?case
    by (simp add: run_calls_snoc)
qed

lemma trim_history_last:
  assumes "0 \<le> max_history c" and "other_messages [m] = [m]"
    and "conversation_history c = h @ [m]"
  shows "conversation_history (trim_history c) \<noteq> [] \<and>
         last (conversation_history (trim_history c)) = m"
proof (cases "max_history c = 0")
  case True
  from trim_history_zero [OF True] assms(2,3) show ?thesis by simp
next
  case False
  with assms(1) have pos: "0 < max_history c" by simp
  let ?o = "other_messages h"
  have lt: "Suc (length ?o) - nat (max_history c) < length (?o @ [m])"
    using pos by simp
  then have ne: "drop (Suc (length ?o) - nat (max_history c)) (?o @ [m]) \<noteq> []"
    by simp
  have "last (drop (Suc (length ?o) - nat (max_history c)) (?o @ [m])) = last (?o @ [m])"
    using lt by (rule last_drop)
  with ne trim_history_positive [OF pos] assms(2,3) show ?thesis
    by simp
qed

lemma add_user_message_last:
  assumes "0 \<le> max_history c"
  shows "conversation_history (add_user_message c v) \<noteq> [] \<and>
         last (conversation_history (add_user_message c v)) = \<lparr>role = ''user'', content = v\<rparr>"
  unfolding add_user_message_def
  by (rule trim_history_last [where h = "conversation_history c"])
     (use assms in \<open>simp_all add: other_messages_def\<close>)

lemma add_assistant_message_last:
  assumes "0 \<le> max_history c"
  shows "conversation_history (add_assistant_message c v) \<noteq> [] \<and>
         last (conversation_history (add_assistant_message c v)) =
           \<lparr>role = ''assistant'', content = v\<rparr>"
  unfolding add_assistant_message_def
  by (rule trim_history_last [where h = "conversation_history c"])
     (use assms in \<open>simp_all add: other_messages_def\<close>)


section \<open>The remote call: lemmas\<close>

lemma chat_except_None [simp]: "chat_except e = PyNone"
  by (cases e) simp_all

lemma has_choices_missing_or_empty:
  assumes "choices_missing_or_empty d"
  shows "has_choices d \<noteq> Inr True"
proof (cases d)
  case (PyDict kvs)
  show ?thesis
  proof (cases "map_of kvs ''choices''")
    case None
    then have "''choices'' \<notin> fst ` set kvs" by (simp add: map_of_eq_None_iff)
    then show ?thesis by (simp add: PyDict has_choices_def then_do_def)
  next
    case (Some v)
    with assms PyDict have "v = PyList []" by simp
    with Some show ?thesis
      by (simp add: PyDict has_choices_def then_do_def split: sum.splits)
  qed
qed (simp_all add: has_choices_def then_do_def)

lemma chat_on_failure:
  assumes "failure_outcome (post (chat_request (add_user_message c (PyStr user_input))))"
  shows "chat c user_input post = (add_user_message c (PyStr user_input), PyNone)"
proof (cases "post (chat_request (add_user_message c (PyStr user_input)))")
  case (Inl e)
  then show ?thesis by (simp add: chat_def chat_try_def Let_def)
next
  case (Inr resp)
  show ?thesis
  proof (cases "status_code resp = 200")
    case False
    with Inr show ?thesis
      by (simp add: chat_def chat_try_def Let_def then_do_def split: sum.splits)
  next
    case True
    show ?thesis
    proof (cases "json resp")
      case (Inl e)
      with Inr True show ?thesis by (simp add: chat_def chat_try_def Let_def)
    next
      case d: (Inr d)
      with assms Inr True have "choices_missing_or_empty d"
        by (simp add: failure_outcome_def)
      then have "has_choices d \<noteq> Inr True" by (rule has_choices_missing_or_empty)
      then show ?thesis using Inr True d
        by (cases "has_choices d") (auto simp: chat_def chat_try_def Let_def)
    qed
  qed
qed

lemma chat_catches:
  assumes "chat_try c user_input post = (c', Inl e)"
  shows "chat c user_input post = (c', PyNone)"
  using assms by (simp add: chat_def)


lemma usage_part_dict: "usage_part (PyDict kvs) key = Inr ()"
proof (cases "map_of kvs key")
  case None
  then have "key \<notin> fst ` set kvs" by (simp add: map_of_eq_None_iff)
  then show ?thesis by (simp add: usage_part_def then_do_def)
next
  case (Some v)
  then show ?thesis by (simp add: usage_part_def then_do_def)
qed

lemma print_response_info_ok:
  assumes "usage_absent_or_object (map_of body ''usage'')"
  shows "then_do (py_get (PyDict body) ''usage'' (PyDict [])) print_response_info = Inr ()"
proof (cases "map_of body ''usage''")
  case None
  then show ?thesis by (simp add: then_do_def print_response_info_def)
next
  case (Some u)
  with assms show ?thesis
    by (cases u) (simp_all add: then_do_def print_response_info_def usage_part_dict)
qed

lemma chat_on_success:
  assumes post: "post (chat_request (add_user_message c (PyStr user_input))) = Inr resp"
    and status: "status_code resp = 200"
    and body: "json resp = Inr (PyDict body)"
    and choices: "map_of body ''choices'' = Some (PyList (PyDict choice # others))"
    and message: "map_of choice ''message'' = Some (PyDict message)"
    and reply: "map_of message ''content'' = Some reply"
    and usage: "usage_absent_or_object (map_of body ''usage'')"
  shows "chat c user_input post =
           (add_assistant_message (add_user_message c (PyStr user_input)) reply, reply)"
proof -
  have "''choices'' \<in> fst ` set body"
    using choices by (metis map_of_eq_None_iff option.distinct(1))
  then have has: "has_choices (PyDict body) = Inr True"
    using choices by (simp add: has_choices_def then_do_def)
  have first: "first_choice_content (PyDict body) = Inr reply"
    using choices message reply by (simp add: first_choice_content_def then_do_def)
  have "then_do (py_get (PyDict body) ''usage'' (PyDict []))
          (\<lambda>usage. then_do (print_response_info usage) (\<lambda>_. Inr reply)) = Inr reply"
    using print_response_info_ok [OF usage]
    by (auto simp: then_do_def split: sum.splits)
  with post status body has first show ?thesis
    by (simp add: chat_def chat_try_def Let_def)
qed

lemma add_user_message_other:
  assumes "0 < max_history c"
  shows "other_messages (conversation_history (add_user_message c v)) =
           drop (Suc (length (other_messages (conversation_history c))) - nat (max_history c))
                (other_messages (conversation_history c) @ [\<lparr>role = ''user'', content = v\<rparr>])"
  using apply_call_other [OF assms, of "AppendUser v"] by simp

lemma add_assistant_message_other:
  assumes "0 < max_history c"
  shows "other_messages (conversation_history (add_assistant_message c v)) =
           drop (Suc (length (other_messages (conversation_history c))) - nat (max_history c))
                (other_messages (conversation_history c) @ [\<lparr>role = ''assistant'', content = v\<rparr>])"
  using apply_call_other [OF assms, of "AppendAssistant v"] by simp

lemma add_user_message_system:
  "system_messages (conversation_history (add_user_message c v)) =
     system_messages (conversation_history c)"
  by (simp add: add_user_message_def trim_history_system) (simp add: system_messages_def)

lemma add_assistant_message_system:
  "system_messages (conversation_history (add_assistant_message c v)) =
     system_messages (conversation_history c)"
  by (simp add: add_assistant_message_def trim_history_system) (simp add: system_messages_def)

lemma request_roles:
  "filter (\<lambda>d. py_getitem d ''role'' = Inr (PyStr ''system'')) (map to_dict h) =
     map to_dict (system_messages h)"
  by (induction h) (simp_all add: to_dict_def system_messages_def)

lemma set_system_prompt_history:
  "conversation_history (set_system_prompt c t) =
     (if strip t \<noteq> [] then [\<lparr>role = ''system'', content = PyStr (strip t)\<rparr>] else []) @
     other_messages (conversation_history c)"
  by (simp add: set_system_prompt_def Let_def)

section \<open>The properties\<close>

text \<open>
  C1. With a positive retention limit, after each call of a sequence of
  \<^verbatim>\<open>add_user_message\<close>/\<^verbatim>\<open>add_assistant_message\<close> calls (that is, after the first \<open>n\<close> calls,
  for every \<open>n\<close> from 1 to the length of the sequence), the number of messages whose role
  is not \<^verbatim>\<open>'system'\<close> is at most \<open>max_history\<close>, whatever the history was before.
\<close>

theorem retention_bound_after_each_call:
  assumes "0 < max_history c" and "0 < n" and "n \<le> length calls"
  shows "int (length (other_messages (conversation_history (run_calls c (take n calls)))))
           \<le> max_history c"
proof -
  from assms(2,3) have "take n calls \<noteq> []" by auto
  from run_calls_bound [OF assms(1) this] show ?thesis .
qed

theorem retention_bound_after_each_call_witness:
  "0 < max_history (demo_client\<lparr>conversation_history := demo_history\<rparr>) \<and>
   (0::nat) < 3 \<and> 3 \<le> length demo_calls \<and>
   int (length (other_messages (conversation_history
     (run_calls (demo_client\<lparr>conversation_history := demo_history\<rparr>) (take 3 demo_calls)))))
     \<le> max_history (demo_client\<lparr>conversation_history := demo_history\<rparr>)"
  using retention_bound_after_each_call
          [of "demo_client\<lparr>conversation_history := demo_history\<rparr>" 3 demo_calls]
  by (simp add: demo_defs)

text \<open>
  C2. With a positive retention limit, \<^verbatim>\<open>_trim_history\<close> splits the history into the
  system-role messages and the rest, keeps the rest whole when it is no longer than the
  limit and otherwise only its last \<open>max_history\<close> elements, and puts the system messages
  in front of the kept rest. The system messages keep their order, the kept rest is a
  suffix of the old rest, and after any non-empty sequence of appends the rest is the tail
  of the old rest followed by the appended messages in append order. With limit 2 the
  appends user a, assistant b, user c, assistant d, user e leave the rest
  [assistant d, user e].
\<close>

theorem trim_history_keeps_last:
  assumes "0 < max_history c"
  shows "conversation_history (trim_history c) =
           system_messages (conversation_history c) @
           (if int (length (other_messages (conversation_history c))) > max_history c
            then drop (length (other_messages (conversation_history c)) - nat (max_history c))
                      (other_messages (conversation_history c))
            else other_messages (conversation_history c))
       \<and> system_messages (conversation_history (trim_history c)) =
           system_messages (conversation_history c)
       \<and> suffix (other_messages (conversation_history (trim_history c)))
                (other_messages (conversation_history c))
       \<and> (calls \<noteq> [] \<longrightarrow>
            other_messages (conversation_history (run_calls c calls)) =
              drop (length (other_messages (conversation_history c)) + length calls
                      - nat (max_history c))
                   (other_messages (conversation_history c) @ map message_of calls))
       \<and> (max_history c = 2 \<longrightarrow>
            other_messages (conversation_history (run_calls c demo_calls)) =
              [\<lparr>role = ''assistant'', content = PyStr ''d''\<rparr>,
               \<lparr>role = ''user'', content = PyStr ''e''\<rparr>])"
proof (intro conjI impI)
  show "conversation_history (trim_history c) =
           system_messages (conversation_history c) @
           (if int (length (other_messages (conversation_history c))) > max_history c
            then drop (length (other_messages (conversation_history c)) - nat (max_history c))
                      (other_messages (conversation_history c))
            else other_messages (conversation_history c))"
    using trim_history_positive [OF assms] by auto
  show "system_messages (conversation_history (trim_history c)) =
           system_messages (conversation_history c)"
    by (rule trim_history_system)
  show "suffix (other_messages (conversation_history (trim_history c)))
                (other_messages (conversation_history c))"
    by (simp add: trim_history_other [OF assms] suffix_drop)
  show "other_messages (conversation_history (run_calls c calls)) =
              drop (length (other_messages (conversation_history c)) + length calls
                      - nat (max_history c))
                   (other_messages (conversation_history c) @ map message_of calls)"
    if "calls \<noteq> []"
    using assms that by (rule run_calls_other)
  show "other_messages (conversation_history (run_calls c demo_calls)) =
              [\<lparr>role = ''assistant'', content = PyStr ''d''\<rparr>,
               \<lparr>role = ''user'', content = PyStr ''e''\<rparr>]"
    if two: "max_history c = 2"
  proof -
    have "demo_calls \<noteq> []" by (simp add: demo_calls_def)
    from run_calls_other [OF assms this] two show ?thesis
      by (simp add: demo_calls_def)
  qed
qed

theorem trim_history_keeps_last_witness:
  "0 < max_history (demo_client\<lparr>conversation_history := demo_history\<rparr>) \<and>
   int (length (other_messages demo_history)) > max_history demo_client \<and>
   conversation_history (trim_history (demo_client\<lparr>conversation_history := demo_history\<rparr>)) =
     [\<lparr>role = ''system'', content = PyStr ''Be brief.''\<rparr>,
      \<lparr>role = ''assistant'', content = PyStr ''b''\<rparr>,
      \<lparr>role = ''user'', content = PyStr ''c''\<rparr>] \<and>
   demo_calls \<noteq> [] \<and>
   max_history (demo_client\<lparr>conversation_history := demo_history\<rparr>) = 2 \<and>
   conversation_history (run_calls (demo_client\<lparr>conversation_history := demo_history\<rparr>) demo_calls) =
     [\<lparr>role = ''system'', content = PyStr ''Be brief.''\<rparr>,
      \<lparr>role = ''assistant'', content = PyStr ''d''\<rparr>,
      \<lparr>role = ''user'', content = PyStr ''e''\<rparr>]"
  using trim_history_keeps_last
          [of "demo_client\<lparr>conversation_history := demo_history\<rparr>" demo_calls]
  by (simp add: demo_defs history_defs Let_def)

text \<open>
  C3. When the call fails in one of the listed ways (the transport raises: a timeout, a
  connection failure or any other exception; the status is not 200; the status is 200 and
  the body does not parse, or has no \<^verbatim>\<open>choices\<close>, or an empty \<^verbatim>\<open>choices\<close> array), the client
  after \<^verbatim>\<open>chat\<close> is exactly the client after \<^verbatim>\<open>add_user_message\<close>: nothing else is appended
  or changed, and \<^verbatim>\<open>None\<close> is returned. With a retention limit that is not negative, the
  user turn is the last message of the history.
\<close>

theorem chat_failure_keeps_user_turn:
  assumes "failure_outcome (post (chat_request (add_user_message c (PyStr user_input))))"
  shows "chat c user_input post = (add_user_message c (PyStr user_input), PyNone)
     \<and> (0 \<le> max_history c \<longrightarrow>
          conversation_history (fst (chat c user_input post)) \<noteq> [] \<and>
          last (conversation_history (fst (chat c user_input post))) =
            \<lparr>role = ''user'', content = PyStr user_input\<rparr>)
     \<and> (0 < max_history c \<longrightarrow>
          other_messages (conversation_history (fst (chat c user_input post))) =
            drop (Suc (length (other_messages (conversation_history c))) - nat (max_history c))
                 (other_messages (conversation_history c) @
                    [\<lparr>role = ''user'', content = PyStr user_input\<rparr>]))
     \<and> system_messages (conversation_history (fst (chat c user_input post))) =
         system_messages (conversation_history c)"
  using chat_on_failure [where post = post and c = c and user_input = user_input, OF assms]
    add_user_message_last [of c "PyStr user_input"]
    add_user_message_other [of c "PyStr user_input"]
    add_user_message_system [of c "PyStr user_input"]
  by simp

theorem chat_failure_keeps_user_turn_witness:
  "failure_outcome
     (remote_reply (PyDict [(''choices'', PyList [])])
        (chat_request (add_user_message (demo_client\<lparr>conversation_history := demo_history\<rparr>)
           (PyStr ''hi''))))
   \<and> 0 < max_history (demo_client\<lparr>conversation_history := demo_history\<rparr>)
   \<and> chat (demo_client\<lparr>conversation_history := demo_history\<rparr>) ''hi''
        (remote_reply (PyDict [(''choices'', PyList [])])) =
       (demo_client\<lparr>conversation_history :=
          [\<lparr>role = ''system'', content = PyStr ''Be brief.''\<rparr>,
           \<lparr>role = ''user'', content = PyStr ''c''\<rparr>,
           \<lparr>role = ''user'', content = PyStr ''hi''\<rparr>]\<rparr>, PyNone)"
  using chat_failure_keeps_user_turn
          [of "remote_reply (PyDict [(''choices'', PyList [])])"
              "demo_client\<lparr>conversation_history := demo_history\<rparr>" "''hi''"]
  by (simp add: demo_defs history_defs failure_outcome_def Let_def)

text \<open>
  C4, as the code has it. \<^verbatim>\<open>chat\<close> lets no exception out: whatever is raised inside its
  \<^verbatim>\<open>try\<close> block is caught and answered with \<^verbatim>\<open>None\<close>. On every listed failure the value
  returned is \<^verbatim>\<open>None\<close>, the same for every kind; the kind, the status code and the error
  message are not part of it.
\<close>

theorem chat_returns_None_on_failure:
  "(chat_try c user_input post = (c', Inl e) \<longrightarrow> chat c user_input post = (c', PyNone))
   \<and> (failure_outcome (post (chat_request (add_user_message c (PyStr user_input)))) \<longrightarrow>
        snd (chat c user_input post) = PyNone)"
  using chat_catches [of c user_input post c' e] chat_on_failure [of post c user_input]
  by simp

theorem chat_returns_None_on_failure_witness:
  "chat_try demo_client ''hi'' remote_timeout =
     (add_user_message demo_client (PyStr ''hi''), Inl Timeout)
   \<and> failure_outcome
       (remote_timeout (chat_request (add_user_message demo_client (PyStr ''hi''))))
   \<and> chat demo_client ''hi'' remote_timeout = (add_user_message demo_client (PyStr ''hi''), PyNone)"
  using chat_returns_None_on_failure
          [of demo_client "''hi''" remote_timeout "add_user_message demo_client (PyStr ''hi'')"
              Timeout]
  by (simp add: chat_try_def remote_timeout_def failure_outcome_def Let_def)

text \<open>
  The claim C4 as the specification words it fails: an HTTP 401 with the body
  \<^verbatim>\<open>{"error":{"message":"invalid key","type":"auth"}}\<close>, a timeout and a connection failure
  all give the caller the same value \<^verbatim>\<open>None\<close> and the same client.
\<close>

theorem chat_failure_kinds_indistinguishable:
  "chat demo_client ''hi'' remote_401 = chat demo_client ''hi'' remote_timeout
   \<and> chat demo_client ''hi'' remote_timeout = chat demo_client ''hi'' remote_connection_error
   \<and> snd (chat demo_client ''hi'' remote_401) = PyNone"
  by (simp add: chat_defs remote_401_def remote_timeout_def remote_connection_error_def Let_def)

text \<open>
  C5, as the code has it. When the status is 200 and the parsed body is an object whose
  \<^verbatim>\<open>choices\<close> is an array with a first element that is an object holding a \<^verbatim>\<open>message\<close> object
  with a \<^verbatim>\<open>content\<close> entry, and whose \<^verbatim>\<open>usage\<close> is absent, \<^verbatim>\<open>null\<close> or an object, \<^verbatim>\<open>chat\<close>
  appends one assistant message with that content, unchanged, after the user turn (by
  \<^verbatim>\<open>add_assistant_message\<close>) and returns the same content.
\<close>

theorem chat_success_appends_reply:
  assumes "post (chat_request (add_user_message c (PyStr user_input))) = Inr resp"
    and "status_code resp = 200"
    and "json resp = Inr (PyDict body)"
    and "map_of body ''choices'' = Some (PyList (PyDict choice # others))"
    and "map_of choice ''message'' = Some (PyDict message)"
    and "map_of message ''content'' = Some reply"
    and "usage_absent_or_object (map_of body ''usage'')"
  shows "chat c user_input post =
           (add_assistant_message (add_user_message c (PyStr user_input)) reply, reply)
     \<and> (0 \<le> max_history c \<longrightarrow>
          last (conversation_history (fst (chat c user_input post))) =
            \<lparr>role = ''assistant'', content = reply\<rparr>)
     \<and> (0 < max_history c \<longrightarrow>
          other_messages (conversation_history (fst (chat c user_input post))) =
            drop (Suc (length (other_messages
                    (conversation_history (add_user_message c (PyStr user_input)))))
                  - nat (max_history c))
                 (other_messages (conversation_history (add_user_message c (PyStr user_input)))
                    @ [\<lparr>role = ''assistant'', content = reply\<rparr>]))"
proof -
  let ?c1 = "add_user_message c (PyStr user_input)"
  have k: "max_history ?c1 = max_history c"
    by (simp add: add_user_message_def)
  from chat_on_success [where post = post and c = c and user_input = user_input, OF assms]
  have "chat c user_input post = (add_assistant_message ?c1 reply, reply)" .
  then show ?thesis
    using add_assistant_message_last [of ?c1 reply] add_assistant_message_other [of ?c1 reply] k
    by simp
qed

theorem chat_success_appends_reply_witness:
  "remote_reply (PyDict [(''choices'', hello_choices),
                         (''usage'', PyDict [(''total_tokens'', PyInt 7)])])
     (chat_request (add_user_message demo_client (PyStr ''hi''))) =
     Inr \<lparr>status_code = 200, resp_text = [],
          json = Inr (PyDict [(''choices'', hello_choices),
                              (''usage'', PyDict [(''total_tokens'', PyInt 7)])])\<rparr>
   \<and> usage_absent_or_object
       (map_of [(''choices'', hello_choices), (''usage'', PyDict [(''total_tokens'', PyInt 7)])]
          ''usage'')
   \<and> 0 < max_history demo_client
   \<and> chat demo_client ''hi''
       (remote_reply (PyDict [(''choices'', hello_choices),
                              (''usage'', PyDict [(''total_tokens'', PyInt 7)])])) =
       (demo_client\<lparr>conversation_history :=
          [\<lparr>role = ''user'', content = PyStr ''hi''\<rparr>,
           \<lparr>role = ''assistant'', content = PyStr '' Hello! ''\<rparr>]\<rparr>, PyStr '' Hello! '')"
  using chat_success_appends_reply
          [of "remote_reply (PyDict [(''choices'', hello_choices),
                                     (''usage'', PyDict [(''total_tokens'', PyInt 7)])])"
              demo_client "''hi''"
              "\<lparr>status_code = 200, resp_text = [],
                json = Inr (PyDict [(''choices'', hello_choices),
                                    (''usage'', PyDict [(''total_tokens'', PyInt 7)])])\<rparr>"
              "[(''choices'', hello_choices), (''usage'', PyDict [(''total_tokens'', PyInt 7)])]"
              "[(''message'', PyDict [(''role'', PyStr ''assistant''),
                                      (''content'', PyStr '' Hello! '')])]"
              "[]"
              "[(''role'', PyStr ''assistant''), (''content'', PyStr '' Hello! '')]"
              "PyStr '' Hello! ''"]
  by (simp add: demo_defs history_defs Let_def)

text \<open>
  The claim C5 as the specification words it fails on a body whose \<^verbatim>\<open>choices\<close> array is not
  empty but whose first element holds no \<^verbatim>\<open>message\<close>: the lookup raises, the handler returns
  \<^verbatim>\<open>None\<close>, and no assistant message is appended. It also fails on a body with the reply in
  place and \<^verbatim>\<open>"usage": 5\<close>: the assistant message is appended, then printing the usage
  raises, and \<^verbatim>\<open>None\<close> is returned in place of the content.
\<close>

theorem chat_nonempty_choices_without_reply:
  "chat demo_client ''hi'' (remote_reply (PyDict [(''choices'', PyList [PyDict []])])) =
     (demo_client\<lparr>conversation_history := [\<lparr>role = ''user'', content = PyStr ''hi''\<rparr>]\<rparr>,
      PyNone)
   \<and> chat demo_client ''hi''
        (remote_reply (PyDict [(''choices'', hello_choices), (''usage'', PyInt 5)])) =
     (demo_client\<lparr>conversation_history :=
        [\<lparr>role = ''user'', content = PyStr ''hi''\<rparr>,
         \<lparr>role = ''assistant'', content = PyStr '' Hello! ''\<rparr>]\<rparr>,
      PyNone)"
  by (simp add: chat_defs demo_defs history_defs Let_def)

text \<open>
  C6. \<^verbatim>\<open>set_system_prompt\<close> removes every system-role message and, when the text stripped
  of surrounding whitespace is not empty, puts one system message with the stripped text
  at index 0. So after two calls in a row, the second with a text that is not empty once
  stripped, the history holds exactly one system message, at index 0, with the second
  text; and after a call with the empty string the request messages hold no system-role
  entry.
\<close>

theorem set_system_prompt_replaces:
  "conversation_history (set_system_prompt c t) =
     (if strip t \<noteq> [] then [\<lparr>role = ''system'', content = PyStr (strip t)\<rparr>] else []) @
     other_messages (conversation_history c)
   \<and> (strip t2 \<noteq> [] \<longrightarrow>
        system_messages (conversation_history (set_system_prompt (set_system_prompt c t1) t2)) =
          [\<lparr>role = ''system'', content = PyStr (strip t2)\<rparr>]
        \<and> conversation_history (set_system_prompt (set_system_prompt c t1) t2) ! 0 =
          \<lparr>role = ''system'', content = PyStr (strip t2)\<rparr>
        \<and> other_messages (conversation_history (set_system_prompt (set_system_prompt c t1) t2)) =
          other_messages (conversation_history c))
   \<and> filter (\<lambda>d. py_getitem d ''role'' = Inr (PyStr ''system''))
        (request_messages (set_system_prompt c [])) = []"
proof (intro conjI impI)
  show "conversation_history (set_system_prompt c t) =
     (if strip t \<noteq> [] then [\<lparr>role = ''system'', content = PyStr (strip t)\<rparr>] else []) @
     other_messages (conversation_history c)"
    by (rule set_system_prompt_history)
next
  assume t2: "strip t2 \<noteq> []"
  have h: "conversation_history (set_system_prompt (set_system_prompt c t1) t2) =
             \<lparr>role = ''system'', content = PyStr (strip t2)\<rparr> # other_messages (conversation_history c)"
    using t2 by (simp add: set_system_prompt_history other_messages_def)
  show "system_messages (conversation_history (set_system_prompt (set_system_prompt c t1) t2)) =
          [\<lparr>role = ''system'', content = PyStr (strip t2)\<rparr>]"
    unfolding h using system_of_other [of "conversation_history c"]
    by (simp add: system_messages_def)
  show "conversation_history (set_system_prompt (set_system_prompt c t1) t2) ! 0 =
          \<lparr>role = ''system'', content = PyStr (strip t2)\<rparr>"
    unfolding h by simp
  show "other_messages (conversation_history (set_system_prompt (set_system_prompt c t1) t2)) =
          other_messages (conversation_history c)"
    unfolding h using other_of_other [of "conversation_history c"]
    by (simp add: other_messages_def)
next
  have "strip [] = []" by (simp add: strip_def)
  then show "filter (\<lambda>d. py_getitem d ''role'' = Inr (PyStr ''system''))
        (request_messages (set_system_prompt c [])) = []"
    by (simp add: request_messages_def request_roles set_system_prompt_history)
qed

theorem set_system_prompt_replaces_witness:
  "strip '' Answer in French.  '' \<noteq> [] \<and>
   conversation_history
     (set_system_prompt
        (set_system_prompt (demo_client\<lparr>conversation_history := demo_history\<rparr>) ''Be kind.'')
        '' Answer in French.  '') =
     [\<lparr>role = ''system'', content = PyStr ''Answer in French.''\<rparr>,
      \<lparr>role = ''user'', content = PyStr ''a''\<rparr>,
      \<lparr>role = ''assistant'', content = PyStr ''b''\<rparr>,
      \<lparr>role = ''user'', content = PyStr ''c''\<rparr>] \<and>
   system_messages (conversation_history
     (set_system_prompt
        (set_system_prompt (demo_client\<lparr>conversation_history := demo_history\<rparr>) ''Be kind.'')
        '' Answer in French.  '')) =
     [\<lparr>role = ''system'', content = PyStr ''Answer in French.''\<rparr>] \<and>
   request_messages (set_system_prompt (demo_client\<lparr>conversation_history := demo_history\<rparr>) []) =
     [PyDict [(''role'', PyStr ''user''), (''content'', PyStr ''a'')],
      PyDict [(''role'', PyStr ''assistant''), (''content'', PyStr ''b'')],
      PyDict [(''role'', PyStr ''user''), (''content'', PyStr ''c'')]]"
  using set_system_prompt_replaces
          [of "set_system_prompt (demo_client\<lparr>conversation_history := demo_history\<rparr>) ''Be kind.''"
              "'' Answer in French.  ''" "'' Answer in French.  ''" "''Be kind.''"]
  by (simp add: demo_defs history_defs request_messages_def to_dict_def Let_def)

text \<open>
  C7, as the code has it. \<^verbatim>\<open>add_user_message\<close> and \<^verbatim>\<open>add_assistant_message\<close> append a message
  with the role \<^verbatim>\<open>'user'\<close> or \<^verbatim>\<open>'assistant'\<close> and the content exactly as given, with no
  whitespace removed, and then run \<^verbatim>\<open>_trim_history\<close>; with a retention limit that is not
  negative the new message is the last of the history.
\<close>

theorem add_message_appends_as_given:
  "add_user_message c v =
     trim_history (c\<lparr>conversation_history :=
       conversation_history c @ [\<lparr>role = ''user'', content = v\<rparr>]\<rparr>)
   \<and> add_assistant_message c v =
     trim_history (c\<lparr>conversation_history :=
       conversation_history c @ [\<lparr>role = ''assistant'', content = v\<rparr>]\<rparr>)
   \<and> (0 \<le> max_history c \<longrightarrow>
        last (conversation_history (add_user_message c v)) = \<lparr>role = ''user'', content = v\<rparr>
        \<and> last (conversation_history (add_assistant_message c v)) =
            \<lparr>role = ''assistant'', content = v\<rparr>)"
  using add_user_message_last [of c v] add_assistant_message_last [of c v]
  by (simp add: add_user_message_def add_assistant_message_def)

theorem add_message_appends_as_given_witness:
  "0 \<le> max_history (demo_client\<lparr>conversation_history := demo_history\<rparr>)
   \<and> conversation_history
       (add_user_message (demo_client\<lparr>conversation_history := demo_history\<rparr>) (PyStr '' hi '')) =
       [\<lparr>role = ''system'', content = PyStr ''Be brief.''\<rparr>,
        \<lparr>role = ''user'', content = PyStr ''c''\<rparr>,
        \<lparr>role = ''user'', content = PyStr '' hi ''\<rparr>]
   \<and> last (conversation_history
       (add_assistant_message (demo_client\<lparr>conversation_history := demo_history\<rparr>)
          (PyStr '' hi ''))) = \<lparr>role = ''assistant'', content = PyStr '' hi ''\<rparr>"
  using add_message_appends_as_given
          [of "demo_client\<lparr>conversation_history := demo_history\<rparr>" "PyStr '' hi ''"]
  by (simp add: demo_defs history_defs Let_def)

text \<open>
  The claim C7 as the specification words it fails: the content stored for the text
  \<^verbatim>\<open>' hi '\<close> is \<^verbatim>\<open>' hi '\<close>, not the trimmed \<^verbatim>\<open>'hi'\<close>, for both roles.
\<close>

theorem add_message_does_not_trim:
  "strip '' hi '' = ''hi''
   \<and> conversation_history (add_user_message demo_client (PyStr '' hi '')) =
       [\<lparr>role = ''user'', content = PyStr '' hi ''\<rparr>]
   \<and> conversation_history (add_user_message demo_client (PyStr '' hi '')) \<noteq>
       [\<lparr>role = ''user'', content = PyStr (strip '' hi '')\<rparr>]
   \<and> conversation_history (add_assistant_message demo_client (PyStr '' hi '')) \<noteq>
       [\<lparr>role = ''assistant'', content = PyStr (strip '' hi '')\<rparr>]"
  by (simp add: demo_defs history_defs Let_def)

text \<open>
  C8. \<^verbatim>\<open>clear_history\<close> keeps exactly the system-role messages, in their order, and removes
  every other message, whatever the history was; it changes nothing else and has no
  failing path.
\<close>

theorem clear_history_keeps_system:
  "conversation_history (clear_history c) = system_messages (conversation_history c)
   \<and> other_messages (conversation_history (clear_history c)) = []
   \<and> system_messages (conversation_history (clear_history c)) =
       system_messages (conversation_history c)
   \<and> clear_history c = c\<lparr>conversation_history := system_messages (conversation_history c)\<rparr>"
  by (simp add: clear_history_def)

theorem clear_history_keeps_system_witness:
  "conversation_history (clear_history (demo_client\<lparr>conversation_history := demo_history\<rparr>)) =
     [\<lparr>role = ''system'', content = PyStr ''Be brief.''\<rparr>]"
  using clear_history_keeps_system [of "demo_client\<lparr>conversation_history := demo_history\<rparr>"]
  by (simp add: demo_defs system_messages_def)

text \<open>
  C9. \<^verbatim>\<open>test_connection\<close> posts one request whose messages are the fixed probe
  \<^verbatim>\<open>[{'role': 'user', 'content': 'Hello'}]\<close>; the request does not depend on the stored
  history; the client, its history included, is the same after the call, whatever comes
  back; and the result is true exactly when the call returned a response with status 200.
\<close>

theorem test_connection_probe:
  "fst (test_connection c post) = c
   \<and> snd (test_connection c post) =
       (case post (test_request c) of Inl e \<Rightarrow> False | Inr resp \<Rightarrow> status_code resp = 200)
   \<and> py_getitem (json_body (test_request c)) ''messages'' =
       Inr (PyList [PyDict [(''role'', PyStr ''user''), (''content'', PyStr ''Hello'')]])
   \<and> test_request (c\<lparr>conversation_history := h\<rparr>) = test_request c"
  by (simp add: test_connection_def test_connection_try_def test_request_def then_do_def
        split: sum.splits)

theorem test_connection_probe_witness:
  "test_connection (demo_client\<lparr>conversation_history := demo_history\<rparr>) remote_401 =
     (demo_client\<lparr>conversation_history := demo_history\<rparr>, False)
   \<and> test_connection (demo_client\<lparr>conversation_history := demo_history\<rparr>) (remote_reply PyNone) =
     (demo_client\<lparr>conversation_history := demo_history\<rparr>, True)
   \<and> test_connection (demo_client\<lparr>conversation_history := demo_history\<rparr>) remote_timeout =
     (demo_client\<lparr>conversation_history := demo_history\<rparr>, False)"
  using test_connection_probe [of "demo_client\<lparr>conversation_history := demo_history\<rparr>" remote_401]
  by (simp add: demo_defs chat_defs)

text \<open>
  C10. With the retention limit 0, \<^verbatim>\<open>_trim_history\<close> drops nothing: the slice
  \<^verbatim>\<open>other_messages[-0:]\<close> is the whole list. So every append adds one to the number of
  non-system messages, which grows with the number of appends, without a bound.
\<close>

theorem zero_limit_never_trims:
  assumes "max_history c = 0"
  shows "conversation_history (trim_history c) =
           system_messages (conversation_history c) @ other_messages (conversation_history c)
       \<and> other_messages (conversation_history (trim_history c)) =
           other_messages (conversation_history c)
       \<and> other_messages (conversation_history (run_calls c calls)) =
           other_messages (conversation_history c) @ map message_of calls
       \<and> length (other_messages (conversation_history (run_calls c calls))) =
           length (other_messages (conversation_history c)) + length calls"
  using trim_history_zero [OF assms] run_calls_zero [OF assms, of calls]
  by simp

theorem zero_limit_never_trims_witness:
  "max_history (demo_client\<lparr>max_history := 0, conversation_history := demo_history\<rparr>) = 0 \<and>
   conversation_history
     (trim_history (demo_client\<lparr>max_history := 0, conversation_history := demo_history\<rparr>)) =
     [\<lparr>role = ''system'', content = PyStr ''Be brief.''\<rparr>,
      \<lparr>role = ''user'', content = PyStr ''a''\<rparr>,
      \<lparr>role = ''assistant'', content = PyStr ''b''\<rparr>,
      \<lparr>role = ''user'', content = PyStr ''c''\<rparr>] \<and>
   length (other_messages (conversation_history
     (run_calls (demo_client\<lparr>max_history := 0, conversation_history := demo_history\<rparr>)
        demo_calls))) = 8"
  using zero_limit_never_trims
          [of "demo_client\<lparr>max_history := 0, conversation_history := demo_history\<rparr>" demo_calls]
  by (simp add: demo_defs other_messages_def system_messages_def)

end
